theory Spec2Isabelle
  imports Main "HOL-Library.Sublist"
begin

section \<open>Values of the host language\<close>

text \<open>
  The handlers of \<^verbatim>\<open>src/index.ts\<close> read an untyped argument bag and the JSON of the
  registry. A property that may be missing is an \<open>option\<close>; \<open>None\<close> is
  \<^verbatim>\<open>undefined\<close>. Strings are lists of code units below 256, the Latin-1 range of the
  host's strings; JSON numbers are integers.
  The operator \<^verbatim>\<open>||\<close> returns its right operand when the left one is falsy: a missing
  value, the empty string, the number zero or \<^verbatim>\<open>false\<close>. An array is always truthy.
\<close>

definition truthyStr :: "string option \<Rightarrow> bool" where
  "truthyStr v = (case v of None \<Rightarrow> False | Some s \<Rightarrow> s \<noteq> [])"

definition truthyNum :: "int option \<Rightarrow> bool" where
  "truthyNum v = (case v of None \<Rightarrow> False | Some n \<Rightarrow> n \<noteq> 0)"

definition orStr :: "string option \<Rightarrow> string \<Rightarrow> string" where
  "orStr v d = (case v of None \<Rightarrow> d | Some s \<Rightarrow> if s = [] then d else s)"

definition orNum :: "int option \<Rightarrow> int \<Rightarrow> int" where
  "orNum v d = (case v of None \<Rightarrow> d | Some n \<Rightarrow> if n = 0 then d else n)"

definition orBool :: "bool option \<Rightarrow> bool \<Rightarrow> bool" where
  "orBool v d = (case v of None \<Rightarrow> d | Some b \<Rightarrow> if b then b else d)"

definition orList :: "'a list option \<Rightarrow> 'a list \<Rightarrow> 'a list" where
  "orList v d = (case v of None \<Rightarrow> d | Some xs \<Rightarrow> xs)"

text \<open>\<^verbatim>\<open>a + '...'\<close> with a possibly missing left operand: \<^verbatim>\<open>undefined\<close> is printed by name.\<close>

definition plusStr :: "string option \<Rightarrow> string \<Rightarrow> string" where
  "plusStr v s = (case v of None \<Rightarrow> ''undefined'' @ s | Some a \<Rightarrow> a @ s)"

text \<open>\<^verbatim>\<open>xs?.[0]\<close>: the first element, missing on a missing or empty array.\<close>

definition firstOf :: "'a list option \<Rightarrow> 'a option" where
  "firstOf v = (case v of None \<Rightarrow> None | Some [] \<Rightarrow> None | Some (x # _) \<Rightarrow> Some x)"

text \<open>
  \<^verbatim>\<open>new Set(xs)\<close> keeps one copy of each element, in the order of first insertion;
  \<^verbatim>\<open>size\<close> is the length of that list and \<^verbatim>\<open>has\<close> is membership.
\<close>

definition setAdd :: "'a list \<Rightarrow> 'a \<Rightarrow> 'a list" where
  "setAdd acc x = (if x \<in> set acc then acc else acc @ [x])"

definition newSet :: "'a list \<Rightarrow> 'a list" where
  "newSet xs = foldl setAdd [] xs"

section \<open>String operations\<close>

definition isDigit :: "char \<Rightarrow> bool" where
  "isDigit c = (c \<in> set ''0123456789'')"

text \<open>The code units below 256 that the class \<^verbatim>\<open>\s\<close> matches: tab, line feed, vertical
  tab, form feed, carriage return, space and the no-break space U+00A0.\<close>

definition isSpace :: "char \<Rightarrow> bool" where
  "isSpace c = (of_char c \<in> {9::nat, 10, 11, 12, 13, 32, 160})"

text \<open>
  \<^verbatim>\<open>toLowerCase\<close> on a code unit below 256: the letters A to Z and the upper-case letters
  U+00C0 to U+00DE, the multiplication sign U+00D7 apart, move up by 32; every other code
  unit stays.
\<close>

definition lowerChar :: "char \<Rightarrow> char" where
  "lowerChar c =
     (let n = of_char c :: nat in
      if (65 \<le> n \<and> n \<le> 90) \<or> (192 \<le> n \<and> n \<le> 222 \<and> n \<noteq> 215)
      then char_of (n + 32) else c)"

definition toLowerCase :: "string \<Rightarrow> string" where
  "toLowerCase s = map lowerChar s"

text \<open>\<^verbatim>\<open>s.includes(w)\<close>: \<open>w\<close> occurs in \<open>s\<close> as a contiguous block.\<close>

primrec includesStr :: "string \<Rightarrow> string \<Rightarrow> bool" where
  "includesStr [] w = (w = [])"
| "includesStr (c # cs) w = (prefix w (c # cs) \<or> includesStr cs w)"

text \<open>
  \<^verbatim>\<open>s.split(/\s+/)\<close>: the pieces of \<open>s\<close> between maximal runs of whitespace. A run at the
  start leaves an empty first piece, a run at the end an empty last piece, and the empty
  string gives one empty piece.
\<close>

function splitWs :: "string \<Rightarrow> string list" where
  "splitWs [] = [[]]"
| "splitWs (c # cs) =
     (if isSpace c then [] # splitWs (dropWhile isSpace cs)
      else (case splitWs cs of [] \<Rightarrow> [[c]] | t # ts \<Rightarrow> (c # t) # ts))"
  by pat_completeness auto
termination
  by (relation "measure length") (auto simp: le_imp_less_Suc length_dropWhile_le)

section \<open>Identifier validator\<close>

text \<open>
  The pattern \<^verbatim>\<open>/^NCT\d{8}$/\<close> of \<^verbatim>\<open>handleGetStudyDetails\<close> and
  \<^verbatim>\<open>handleGetSimilarStudies\<close>, read from left to right: the three letters, then
  \<open>digits 8\<close> consumes eight digits, and the anchor demands that nothing is left.
\<close>

fun digits :: "nat \<Rightarrow> string \<Rightarrow> string option" where
  "digits 0 s = Some s"
| "digits (Suc n) [] = None"
| "digits (Suc n) (c # cs) = (if isDigit c then digits n cs else None)"

definition nctPattern :: "string \<Rightarrow> bool" where
  "nctPattern s =
     (case s of
        a # b # c # rest \<Rightarrow>
          a = CHR ''N'' \<and> b = CHR ''C'' \<and> c = CHR ''T'' \<and> digits 8 rest = Some []
      | _ \<Rightarrow> False)"

text \<open>The guard \<^verbatim>\<open>!args?.nctId || !/^NCT\d{8}$/.test(args.nctId)\<close>, negated.\<close>

definition nctIdOk :: "string option \<Rightarrow> bool" where
  "nctIdOk v = (truthyStr v \<and> (case v of None \<Rightarrow> False | Some s \<Rightarrow> nctPattern s))"

text \<open>The validator as the specification words it: the fixed prefix, then exactly eight
  digits, eleven characters in all.\<close>

definition specValidId :: "string \<Rightarrow> bool" where
  "specValidId s =
     (length s = 11 \<and> take 3 s = ''NCT'' \<and> list_all isDigit (drop 3 s))"

section \<open>Data model\<close>

text \<open>
  The interface \<^verbatim>\<open>Study\<close>. A field that the handlers read through \<^verbatim>\<open>?.\<close> or
  default with \<^verbatim>\<open>||\<close> is optional here, also where the interface declares it required.
\<close>

record IdentificationModule =
  nctId :: string
  briefTitle :: string
  officialTitle :: "string option"

record DateStruct =
  date :: "string option"
  dateType :: "string option"

record StatusModule =
  overallStatus :: string
  startDateStruct :: "DateStruct option"
  primaryCompletionDateStruct :: "DateStruct option"

record LeadSponsor =
  name :: "string option"
  sponsorClass :: "string option"

record SponsorCollaboratorsModule =
  leadSponsor :: "LeadSponsor option"

record ConditionsModule =
  conditions :: "string list option"

record DesignModule =
  phases :: "string list option"
  studyType :: "string option"

record Location =
  facility :: string
  city :: string
  state :: "string option"
  country :: string

record ContactsLocationsModule =
  locations :: "Location list option"

record EligibilityModule =
  eligibilityCriteria :: "string option"
  healthyVolunteers :: "bool option"
  sex :: "string option"
  minimumAge :: "string option"
  maximumAge :: "string option"

record ProtocolSection =
  identificationModule :: IdentificationModule
  statusModule :: StatusModule
  sponsorCollaboratorsModule :: "SponsorCollaboratorsModule option"
  conditionsModule :: "ConditionsModule option"
  designModule :: "DesignModule option"
  contactsLocationsModule :: "ContactsLocationsModule option"
  eligibilityModule :: "EligibilityModule option"

record Study =
  protocolSection :: ProtocolSection

record StudySearchResponse =
  studies :: "Study list option"
  totalCount :: "int option"

text \<open>The optional chains \<^verbatim>\<open>study.protocolSection.m?.f\<close> that the handlers read.\<close>

definition eligField :: "(EligibilityModule \<Rightarrow> 'a option) \<Rightarrow> Study \<Rightarrow> 'a option" where
  "eligField f study = Option.bind (eligibilityModule (protocolSection study)) f"

definition criteriaText :: "Study \<Rightarrow> string option" where
  "criteriaText study = eligField eligibilityCriteria study"

definition studyPhases :: "Study \<Rightarrow> string list option" where
  "studyPhases study = Option.bind (designModule (protocolSection study)) phases"

definition studyTypeOf :: "Study \<Rightarrow> string option" where
  "studyTypeOf study = Option.bind (designModule (protocolSection study)) studyType"

definition sponsorName :: "Study \<Rightarrow> string option" where
  "sponsorName study =
     Option.bind (Option.bind (sponsorCollaboratorsModule (protocolSection study)) leadSponsor) name"

definition studyConditions :: "Study \<Rightarrow> string list option" where
  "studyConditions study = Option.bind (conditionsModule (protocolSection study)) conditions"

definition startDateOf :: "Study \<Rightarrow> string option" where
  "startDateOf study = Option.bind (startDateStruct (statusModule (protocolSection study))) date"

definition locationsOf :: "Study \<Rightarrow> Location list option" where
  "locationsOf study = Option.bind (contactsLocationsModule (protocolSection study)) locations"

text \<open>
  The argument bag of a tool call. All tools read the same untyped object, so one record
  holds every property the modelled handlers read; \<open>nctIdArg\<close> and \<open>sexArg\<close> are the
  arguments \<^verbatim>\<open>nctId\<close> and \<^verbatim>\<open>sex\<close>. A missing bag is the bag with every property missing.
\<close>

record Args =
  query :: "string option"
  condition :: "string option"
  intervention :: "string option"
  location :: "string option"
  phase :: "string option"
  status :: "string option"
  sexArg :: "string option"
  age :: "string option"
  ageGroup :: "string option"
  pageSize :: "int option"
  nctIdArg :: "string option"
  similarityType :: "string option"
  minAge :: "string option"
  maxAge :: "string option"
  healthyVolunteersArg :: "bool option"
  exclusionKeywords :: "string option"
  inclusionKeywords :: "string option"
  excludeCountry :: "string option"
  includeCountry :: "string option"
  minCountries :: "int option"

text \<open>The upstream query: the object \<^verbatim>\<open>params\<close>, its keys in insertion order.\<close>

datatype ParamValue = PStr string | PNum int | PBool bool

type_synonym Params = "(string \<times> ParamValue) list"

primrec setParam :: "string \<Rightarrow> ParamValue \<Rightarrow> Params \<Rightarrow> Params" where
  "setParam k v [] = [(k, v)]"
| "setParam k v (p # ps) = (if fst p = k then (k, v) # ps else p # setParam k v ps)"

text \<open>\<^verbatim>\<open>if (x) { params[k] = x; }\<close> for a string \<open>x\<close>.\<close>

definition setIf :: "string \<times> string option \<Rightarrow> Params \<Rightarrow> Params" where
  "setIf kv ps =
     (case snd kv of None \<Rightarrow> ps
      | Some s \<Rightarrow> if s = [] then ps else setParam (fst kv) (PStr s) ps)"

text \<open>
  The registry behind \<^verbatim>\<open>axiosInstance.get('/studies', { params })\<close>: a query is answered
  by a response or by a failure. An \<open>AxiosError\<close> carries the HTTP status and message of
  the upstream answer, when there is one, and its own message.
\<close>

datatype Failure =
  AxiosError "int option" "string option" string
| OtherError string

type_synonym Upstream = "Params \<Rightarrow> Failure + StudySearchResponse"

datatype McpErrorCode = InvalidParams | MethodNotFound | InternalError

datatype 'p Content = Text string | Json 'p

record 'p ToolResult =
  content :: "'p Content"
  isError :: bool

datatype 'p Outcome =
  Returned "'p ToolResult"
| ThrewMcp McpErrorCode string
| ThrewOther string

text \<open>What a handler does: the queries it sent, in order, and how it ended.\<close>

type_synonym 'p Run = "Params list \<times> 'p Outcome"

text \<open>The \<^verbatim>\<open>catch\<close> block that every handler ends with.\<close>

definition onFailure :: "Failure \<Rightarrow> 'p Outcome" where
  "onFailure f =
     (case f of
        AxiosError st msg m \<Rightarrow>
          Returned \<lparr>content = Text (''Clinical Trials API error: '' @ orStr msg m), isError = True\<rparr>
      | OtherError m \<Rightarrow> ThrewOther m)"

section \<open>Result projector\<close>

record StudySummary =
  sum_nctId :: string
  sum_title :: string
  sum_status :: string
  sum_phase :: "string list"
  sum_studyType :: string
  sum_sponsor :: string
  sum_conditions :: "string list"
  sum_startDate :: string

definition formatStudySummary :: "Study \<Rightarrow> StudySummary" where
  "formatStudySummary study =
     (let ps = protocolSection study in
      \<lparr>sum_nctId = nctId (identificationModule ps),
       sum_title = briefTitle (identificationModule ps),
       sum_status = overallStatus (statusModule ps),
       sum_phase = orList (studyPhases study) [''Not specified''],
       sum_studyType = orStr (studyTypeOf study) ''Unknown'',
       sum_sponsor = orStr (sponsorName study) ''Not specified'',
       sum_conditions = orList (map_option (take 3) (studyConditions study)) [],
       sum_startDate = orStr (startDateOf study) ''Not specified''\<rparr>)"

record EligibilityBlock =
  el_sex :: string
  el_minimumAge :: string
  el_maximumAge :: string
  el_healthyVolunteers :: bool

text \<open>The block \<^verbatim>\<open>eligibility\<close> that the recruiting and the eligibility-criteria tools
  add to a summary.\<close>

definition eligibilityBlock :: "Study \<Rightarrow> EligibilityBlock" where
  "eligibilityBlock study =
     \<lparr>el_sex = orStr (eligField sex study) ''Unknown'',
      el_minimumAge = orStr (eligField minimumAge study) ''Not specified'',
      el_maximumAge = orStr (eligField maximumAge study) ''Not specified'',
      el_healthyVolunteers = orBool (eligField healthyVolunteers study) False\<rparr>"

text \<open>
  \<^verbatim>\<open>eligibilityCriteria?.substring(0, 200) + '...' || 'Not available'\<close>. The operator
  \<^verbatim>\<open>+\<close> binds tighter than \<^verbatim>\<open>||\<close>: the suffix is appended first, and the default
  applies to the result of the concatenation.
\<close>

definition criteriaPreview :: "Study \<Rightarrow> string" where
  "criteriaPreview study =
     orStr (Some (plusStr (map_option (take 200) (criteriaText study)) ''...''))
       ''Not available''"

record 'r Payload =
  out_totalCount :: int
  out_resultsShown :: nat
  out_studies :: "'r list"

section \<open>Tool handlers\<close>

text \<open>
  A handler is a function of the registry and the argument bag. It returns the queries it
  sent and its outcome: a returned result, or a thrown error. The JSON text of a result is
  kept as the value that is serialised; the block \<^verbatim>\<open>searchCriteria\<close>, which repeats the
  arguments, is left out of the payloads.
\<close>

subsection \<open>\<^verbatim>\<open>search_studies\<close>\<close>

definition searchStudiesParams :: "Args \<Rightarrow> Params" where
  "searchStudiesParams args =
     fold setIf
       [(''query.term'', query args),
        (''query.cond'', condition args),
        (''query.intr'', intervention args),
        (''query.locn'', location args),
        (''filter.phase'', phase args),
        (''filter.overallStatus'', status args),
        (''filter.sex'', sexArg args),
        (''filter.stdAge'', age args)]
       [(''format'', PStr ''json''), (''pageSize'', PNum (orNum (pageSize args) 10))]"

definition handleSearchStudies :: "Upstream \<Rightarrow> Args \<Rightarrow> StudySummary Payload Run" where
  "handleSearchStudies upstream args =
     (let params = searchStudiesParams args in
      ([params],
       case upstream params of
         Inl f \<Rightarrow> onFailure f
       | Inr response \<Rightarrow>
           (let results = map formatStudySummary (orList (studies response) []) in
            Returned
              \<lparr>content = Json
                 \<lparr>out_totalCount = orNum (totalCount response) 0,
                  out_resultsShown = length results,
                  out_studies = results\<rparr>,
               isError = False\<rparr>)))"

subsection \<open>\<^verbatim>\<open>get_recruiting_studies\<close>\<close>

record RecruitingResult = StudySummary +
  rec_eligibility :: EligibilityBlock
  rec_locations :: "Location list"

definition recruitingParams :: "Args \<Rightarrow> Params" where
  "recruitingParams args =
     fold setIf
       [(''query.cond'', condition args),
        (''query.locn'', location args),
        (''filter.stdAge'', ageGroup args)]
       [(''format'', PStr ''json''),
        (''pageSize'', PNum (orNum (pageSize args) 10)),
        (''filter.overallStatus'', PStr ''RECRUITING'')]"

definition recruitingResult :: "Study \<Rightarrow> RecruitingResult" where
  "recruitingResult study =
     StudySummary.extend (formatStudySummary study)
       (RecruitingResult.fields (eligibilityBlock study)
          (orList (map_option (take 2) (locationsOf study)) []))"

definition handleGetRecruitingStudies :: "Upstream \<Rightarrow> Args \<Rightarrow> RecruitingResult Payload Run" where
  "handleGetRecruitingStudies upstream args =
     (let params = recruitingParams args in
      ([params],
       case upstream params of
         Inl f \<Rightarrow> onFailure f
       | Inr response \<Rightarrow>
           (let results = map recruitingResult (orList (studies response) []) in
            Returned
              \<lparr>content = Json
                 \<lparr>out_totalCount = orNum (totalCount response) 0,
                  out_resultsShown = length results,
                  out_studies = results\<rparr>,
               isError = False\<rparr>)))"

subsection \<open>\<^verbatim>\<open>get_study_details\<close>\<close>

record DetailedStudy =
  det_nctId :: string
  det_briefTitle :: string
  det_officialTitle :: "string option"
  det_overallStatus :: string
  det_startDate :: "string option"
  det_primaryCompletionDate :: "string option"
  det_studyType :: "string option"
  det_phases :: "string list option"
  det_sponsor :: "LeadSponsor option"
  det_conditions :: "string list option"
  det_eligibility :: "EligibilityModule option"
  det_locations :: "Location list option"

definition formatDetailedStudy :: "Study \<Rightarrow> DetailedStudy" where
  "formatDetailedStudy study =
     (let ps = protocolSection study in
      \<lparr>det_nctId = nctId (identificationModule ps),
       det_briefTitle = briefTitle (identificationModule ps),
       det_officialTitle = officialTitle (identificationModule ps),
       det_overallStatus = overallStatus (statusModule ps),
       det_startDate = startDateOf study,
       det_primaryCompletionDate =
         Option.bind (primaryCompletionDateStruct (statusModule ps)) date,
       det_studyType = studyTypeOf study,
       det_phases = studyPhases study,
       det_sponsor = Option.bind (sponsorCollaboratorsModule ps) leadSponsor,
       det_conditions = studyConditions study,
       det_eligibility = eligibilityModule ps,
       det_locations = map_option (take 10) (locationsOf study)\<rparr>)"

definition invalidNctId :: "'p Outcome" where
  "invalidNctId = ThrewMcp InvalidParams ''Valid NCT ID is required (format: NCT########)''"

definition studyDetailsParams :: "string \<Rightarrow> Params" where
  "studyDetailsParams ident =
     [(''format'', PStr ''json''), (''query.term'', PStr ident),
      (''filter.ids'', PStr ident), (''pageSize'', PNum 1)]"

definition handleGetStudyDetails :: "Upstream \<Rightarrow> Args \<Rightarrow> DetailedStudy Run" where
  "handleGetStudyDetails upstream args =
     (case nctIdArg args of
        None \<Rightarrow> ([], invalidNctId)
      | Some ident \<Rightarrow>
          if \<not> nctIdOk (Some ident) then ([], invalidNctId)
          else
            ([studyDetailsParams ident],
             case upstream (studyDetailsParams ident) of
               Inl (AxiosError st msg m) \<Rightarrow>
                 if st = Some 404
                 then Returned \<lparr>content = Text (''Study not found: '' @ ident), isError = True\<rparr>
                 else onFailure (AxiosError st msg m)
             | Inl (OtherError m) \<Rightarrow> onFailure (OtherError m)
             | Inr response \<Rightarrow>
                 (case orList (studies response) [] of
                    [] \<Rightarrow>
                      Returned
                        \<lparr>content = Text (''No study found with NCT ID: '' @ ident),
                         isError = True\<rparr>
                  | study # _ \<Rightarrow>
                      Returned \<lparr>content = Json (formatDetailedStudy study), isError = False\<rparr>)))"

subsection \<open>\<^verbatim>\<open>get_similar_studies\<close>\<close>

record SimilarPayload =
  ref_nctId :: string
  ref_title :: string
  out_similarityType :: string
  sim_totalCount :: int
  sim_resultsShown :: nat
  similarStudies :: "StudySummary list"

definition referenceParams :: "string \<Rightarrow> Params" where
  "referenceParams ident =
     [(''format'', PStr ''json''), (''query.term'', PStr ident), (''pageSize'', PNum 1)]"

text \<open>The secondary query: the \<^verbatim>\<open>switch\<close> on the similarity type has cases for
  \<^verbatim>\<open>CONDITION\<close>, \<^verbatim>\<open>SPONSOR\<close> and \<^verbatim>\<open>PHASE\<close> and no default.\<close>

definition similarParams :: "Args \<Rightarrow> Study \<Rightarrow> Params" where
  "similarParams args referenceStudy =
     (let simType = orStr (similarityType args) ''CONDITION'';
          searchParams =
            [(''format'', PStr ''json''), (''pageSize'', PNum (orNum (pageSize args) 10))]
      in if simType = ''CONDITION'' then
           setIf (''query.cond'', firstOf (studyConditions referenceStudy)) searchParams
         else if simType = ''SPONSOR'' then
           setIf (''query.spons'', sponsorName referenceStudy) searchParams
         else if simType = ''PHASE'' then
           setIf (''filter.phase'', firstOf (studyPhases referenceStudy)) searchParams
         else searchParams)"

definition similarPayload :: "Args \<Rightarrow> string \<Rightarrow> Study \<Rightarrow> StudySearchResponse \<Rightarrow> SimilarPayload" where
  "similarPayload args ident referenceStudy response =
     (let results =
            map formatStudySummary
              (filter (\<lambda>study. nctId (identificationModule (protocolSection study)) \<noteq> ident)
                 (orList (studies response) []))
      in \<lparr>ref_nctId = ident,
          ref_title = briefTitle (identificationModule (protocolSection referenceStudy)),
          out_similarityType = orStr (similarityType args) ''CONDITION'',
          sim_totalCount = orNum (totalCount response) 0,
          sim_resultsShown = length results,
          similarStudies = results\<rparr>)"

definition handleGetSimilarStudies :: "Upstream \<Rightarrow> Args \<Rightarrow> SimilarPayload Run" where
  "handleGetSimilarStudies upstream args =
     (case nctIdArg args of
        None \<Rightarrow> ([], invalidNctId)
      | Some ident \<Rightarrow>
          if \<not> nctIdOk (Some ident) then ([], invalidNctId)
          else
            (case upstream (referenceParams ident) of
               Inl f \<Rightarrow> ([referenceParams ident], onFailure f)
             | Inr referenceResponse \<Rightarrow>
                 (case orList (studies referenceResponse) [] of
                    [] \<Rightarrow>
                      ([referenceParams ident],
                       Returned
                         \<lparr>content = Text (''Reference study not found: '' @ ident),
                          isError = True\<rparr>)
                  | referenceStudy # _ \<Rightarrow>
                      (let searchParams = similarParams args referenceStudy in
                       ([referenceParams ident, searchParams],
                        case upstream searchParams of
                          Inl f \<Rightarrow> onFailure f
                        | Inr response \<Rightarrow>
                            Returned
                              \<lparr>content = Json (similarPayload args ident referenceStudy response),
                               isError = False\<rparr>)))))"

subsection \<open>\<^verbatim>\<open>search_by_eligibility_criteria\<close>\<close>

record CriteriaBlock = EligibilityBlock +
  el_criteriaPreview :: string

record CriteriaResult = StudySummary +
  crit_eligibility :: CriteriaBlock

definition eligibilityParams :: "Args \<Rightarrow> Params" where
  "eligibilityParams args =
     (let p1 =
            fold setIf
              [(''filter.minimumAge'', minAge args),
               (''filter.maximumAge'', maxAge args),
               (''filter.sex'', sexArg args)]
              [(''format'', PStr ''json''), (''pageSize'', PNum (orNum (pageSize args) 10))];
          p2 =
            (case healthyVolunteersArg args of
               None \<Rightarrow> p1
             | Some b \<Rightarrow> setParam ''filter.healthyVolunteers'' (PBool b) p1)
      in fold setIf
           [(''query.cond'', condition args), (''query.eligibility'', inclusionKeywords args)]
           p2)"

text \<open>The lower-cased criteria text of a study, the empty string when the text is missing.\<close>

definition criteriaLower :: "Study \<Rightarrow> string" where
  "criteriaLower study =
     orStr (map_option toLowerCase (criteriaText study)) []"

text \<open>The predicate of the exclusion filter: no exclusion word occurs in the criteria.\<close>

definition keepStudy :: "string list \<Rightarrow> Study \<Rightarrow> bool" where
  "keepStudy exclusionWords study =
     (\<not> list_ex (\<lambda>word. includesStr (criteriaLower study) word) exclusionWords)"

definition exclusionFilter :: "string option \<Rightarrow> Study list \<Rightarrow> Study list" where
  "exclusionFilter keywords studyList =
     (case keywords of
        None \<Rightarrow> studyList
      | Some k \<Rightarrow>
          if k = [] then studyList
          else filter (keepStudy (splitWs (toLowerCase k))) studyList)"

definition criteriaResult :: "Study \<Rightarrow> CriteriaResult" where
  "criteriaResult study =
     StudySummary.extend (formatStudySummary study)
       (CriteriaResult.fields
          (EligibilityBlock.extend (eligibilityBlock study)
             (CriteriaBlock.fields (criteriaPreview study))))"

definition handleSearchByEligibilityCriteria ::
    "Upstream \<Rightarrow> Args \<Rightarrow> CriteriaResult Payload Run" where
  "handleSearchByEligibilityCriteria upstream args =
     (let params = eligibilityParams args in
      ([params],
       case upstream params of
         Inl f \<Rightarrow> onFailure f
       | Inr response \<Rightarrow>
           (let filteredStudies =
                  exclusionFilter (exclusionKeywords args) (orList (studies response) []);
                results = map criteriaResult filteredStudies
            in Returned
                 \<lparr>content = Json
                    \<lparr>out_totalCount = orNum (totalCount response) 0,
                     out_resultsShown = length results,
                     out_studies = results\<rparr>,
                  isError = False\<rparr>)))"

subsection \<open>\<^verbatim>\<open>search_international_studies\<close>\<close>

record InternationalDetails =
  totalCountries :: nat
  countries :: "string list"
  totalLocations :: nat
  sampleLocations :: "Location list"

record InternationalResult = StudySummary +
  internationalDetails :: InternationalDetails

definition internationalParams :: "Args \<Rightarrow> Params" where
  "internationalParams args =
     fold setIf
       [(''query.cond'', condition args),
        (''filter.phase'', phase args),
        (''query.locn'', includeCountry args)]
       [(''format'', PStr ''json''), (''pageSize'', PNum (orNum (pageSize args) 10))]"

definition studyLocations :: "Study \<Rightarrow> Location list" where
  "studyLocations study =
     orList (locationsOf study) []"

definition studyCountries :: "Study \<Rightarrow> string list" where
  "studyCountries study = newSet (map country (studyLocations study))"

text \<open>The callback of \<^verbatim>\<open>studies.filter\<close>: the two optional checks, each behind the
  truthiness of its argument, then the floor of two countries.\<close>

definition isInternational :: "Args \<Rightarrow> Study \<Rightarrow> bool" where
  "isInternational args study =
     (let cs = studyCountries study in
      if (case minCountries args of
            None \<Rightarrow> False
          | Some n \<Rightarrow> n \<noteq> 0 \<and> int (length cs) < n) then False
      else if (case excludeCountry args of
                 None \<Rightarrow> False
               | Some c \<Rightarrow> c \<noteq> [] \<and> c \<in> set cs) then False
      else 2 \<le> length cs)"

definition internationalResult :: "Study \<Rightarrow> InternationalResult" where
  "internationalResult study =
     StudySummary.extend (formatStudySummary study)
       (InternationalResult.fields
          \<lparr>totalCountries = length (studyCountries study),
           countries = studyCountries study,
           totalLocations = length (studyLocations study),
           sampleLocations = take 3 (studyLocations study)\<rparr>)"

definition handleSearchInternationalStudies ::
    "Upstream \<Rightarrow> Args \<Rightarrow> InternationalResult Payload Run" where
  "handleSearchInternationalStudies upstream args =
     (let params = internationalParams args in
      ([params],
       case upstream params of
         Inl f \<Rightarrow> onFailure f
       | Inr response \<Rightarrow>
           (let filteredStudies = filter (isInternational args) (orList (studies response) []);
                results = map internationalResult filteredStudies
            in Returned
                 \<lparr>content = Json
                    \<lparr>out_totalCount = orNum (totalCount response) 0,
                     out_resultsShown = length results,
                     out_studies = results\<rparr>,
                  isError = False\<rparr>)))"

section \<open>Sample inputs\<close>

text \<open>A call without arguments, and studies carrying only what an example needs.\<close>

definition noArgs :: Args where
  "noArgs =
     \<lparr>query = None, condition = None, intervention = None, location = None, phase = None,
      status = None, sexArg = None, age = None, ageGroup = None, pageSize = None,
      nctIdArg = None, similarityType = None, minAge = None, maxAge = None,
      healthyVolunteersArg = None, exclusionKeywords = None, inclusionKeywords = None,
      excludeCountry = None, includeCountry = None, minCountries = None\<rparr>"

definition bareSection :: "string \<Rightarrow> ProtocolSection" where
  "bareSection ident =
     \<lparr>identificationModule = \<lparr>nctId = ident, briefTitle = ''Trial'', officialTitle = None\<rparr>,
      statusModule =
        \<lparr>overallStatus = ''RECRUITING'', startDateStruct = None,
         primaryCompletionDateStruct = None\<rparr>,
      sponsorCollaboratorsModule = None, conditionsModule = None, designModule = None,
      contactsLocationsModule = None, eligibilityModule = None\<rparr>"

definition bareStudy :: "string \<Rightarrow> Study" where
  "bareStudy ident = \<lparr>protocolSection = bareSection ident\<rparr>"

definition studyWithCriteria :: "string \<Rightarrow> string \<Rightarrow> Study" where
  "studyWithCriteria ident txt =
     \<lparr>protocolSection =
        (bareSection ident)
          \<lparr>eligibilityModule :=
             Some \<lparr>eligibilityCriteria = Some txt, healthyVolunteers = None, sex = None,
                   minimumAge = None, maximumAge = None\<rparr>\<rparr>\<rparr>"

definition siteIn :: "string \<Rightarrow> Location" where
  "siteIn c = \<lparr>facility = ''Clinic'', city = ''Town'', state = None, country = c\<rparr>"

definition studyIn :: "string \<Rightarrow> string list \<Rightarrow> Study" where
  "studyIn ident cs =
     \<lparr>protocolSection =
        (bareSection ident)
          \<lparr>contactsLocationsModule := Some \<lparr>locations = Some (map siteIn cs)\<rparr>\<rparr>\<rparr>"

definition answering :: "Study list \<Rightarrow> int \<Rightarrow> Upstream" where
  "answering found n = (\<lambda>params. Inr \<lparr>studies = Some found, totalCount = Some n\<rparr>)"

text \<open>A registry holding the studies \<open>db\<close>: a query with a term is answered by the
  studies with that identifier, any other query by all of them.\<close>

definition registry :: "Study list \<Rightarrow> Upstream" where
  "registry db params =
     (let found =
            (case map_of params ''query.term'' of
               Some (PStr t) \<Rightarrow>
                 filter (\<lambda>study. nctId (identificationModule (protocolSection study)) = t) db
             | _ \<Rightarrow> db)
      in Inr \<lparr>studies = Some found, totalCount = Some (int (length found))\<rparr>)"

section \<open>Notions of the specification\<close>

text \<open>The set of distinct countries of a study's locations.\<close>

definition countrySet :: "Study \<Rightarrow> string set" where
  "countrySet study = country ` set (studyLocations study)"

text \<open>A query that carries nothing but the response format and the page size.\<close>

definition baseParams :: "Args \<Rightarrow> Params" where
  "baseParams args = [(''format'', PStr ''json''), (''pageSize'', PNum (orNum (pageSize args) 10))]"

text \<open>The JSON payload of a run that returned one.\<close>

definition payloadOf :: "'p Run \<Rightarrow> 'p option" where
  "payloadOf run =
     (case snd run of
        Returned r \<Rightarrow> (case content r of Json p \<Rightarrow> Some p | Text _ \<Rightarrow> None)
      | _ \<Rightarrow> None)"

section \<open>Auxiliary facts\<close>

lemma digits_all: "digits n s = Some [] \<longleftrightarrow> length s = n \<and> list_all isDigit s"
proof (induction n arbitrary: s)
  case 0
  then show ?case by auto
next
  case (Suc n)
  then show ?case by (cases s) auto
qed

lemma nctPattern_spec: "nctPattern s \<longleftrightarrow> specValidId s"
proof (cases s)
  case Nil
  then show ?thesis by (simp add: nctPattern_def specValidId_def)
next
  case (Cons a s1)
  show ?thesis
  proof (cases s1)
    case Nil
    with Cons show ?thesis by (simp add: nctPattern_def specValidId_def)
  next
    case (Cons b s2)
    note c2 = this
    show ?thesis
    proof (cases s2)
      case Nil
      with c2 \<open>s = a # s1\<close> show ?thesis by (simp add: nctPattern_def specValidId_def)
    next
      case (Cons c rest)
      with c2 \<open>s = a # s1\<close> show ?thesis
        by (auto simp add: nctPattern_def specValidId_def digits_all)
    qed
  qed
qed

lemma specValidId_nonempty: "specValidId s \<Longrightarrow> s \<noteq> []"
  by (auto simp: specValidId_def)

lemma nctIdOk_spec: "nctIdOk v \<longleftrightarrow> (\<exists>s. v = Some s \<and> specValidId s)"
  by (cases v) (auto simp: nctIdOk_def truthyStr_def nctPattern_spec dest: specValidId_nonempty)

lemma includesStr_Nil: "includesStr s []"
  by (cases s) simp_all

lemma splitWs_nonempty: "splitWs s \<noteq> []"
  by (cases s) (auto split: list.splits)

lemma splitWs_leading: "isSpace c \<Longrightarrow> [] \<in> set (splitWs (c # cs))"
  by simp

lemma last_dropWhile: "dropWhile P xs \<noteq> [] \<Longrightarrow> last (dropWhile P xs) = last xs"
  by (induction xs) (auto split: if_splits)

lemma splitWs_trailing:
  "s \<noteq> [] \<Longrightarrow> isSpace (last s) \<Longrightarrow> last (splitWs s) = [] \<and> 2 \<le> length (splitWs s)"
proof (induction s rule: splitWs.induct)
  case 1
  then show ?case by simp
next
  case (2 c cs)
  show ?case
  proof (cases "isSpace c")
    case True
    let ?r = "dropWhile isSpace cs"
    have len: "2 \<le> length (splitWs (c # cs))"
      using True splitWs_nonempty [of ?r] by (cases "splitWs ?r") simp_all
    have "last (splitWs ?r) = []"
    proof (cases "?r = []")
      case True
      then have "splitWs ?r = [[]]" by (metis splitWs.simps(1))
      then show ?thesis by simp
    next
      case False
      then have "cs \<noteq> []" by auto
      with False "2.prems" have "isSpace (last ?r)" by (simp add: last_dropWhile)
      with "2.IH"(1) True False show ?thesis by simp
    qed
    with True len show ?thesis using splitWs_nonempty [of ?r] by simp
  next
    case False
    with "2.prems" have cs: "cs \<noteq> []" by auto
    with "2.prems" have "isSpace (last cs)" by simp
    with "2.IH"(2) False cs have ih: "last (splitWs cs) = [] \<and> 2 \<le> length (splitWs cs)" by simp
    then obtain t u ts where "splitWs cs = t # u # ts"
      by (cases "splitWs cs"; cases "tl (splitWs cs)") auto
    with ih False show ?thesis by simp
  qed
qed

lemma isSpace_lowerChar: "isSpace (lowerChar c) = isSpace c"
  by (auto simp: isSpace_def lowerChar_def Let_def)

lemma blank_token:
  assumes "k \<noteq> []" and "isSpace (hd k) \<or> isSpace (last k)"
  shows "[] \<in> set (splitWs (toLowerCase k))"
proof -
  let ?l = "toLowerCase k"
  from assms(1) have ne: "?l \<noteq> []" by (simp add: toLowerCase_def)
  from assms(2) show ?thesis
  proof
    assume "isSpace (hd k)"
    with assms(1) obtain c cs where "?l = c # cs" "isSpace c"
      by (cases k) (auto simp: toLowerCase_def isSpace_lowerChar)
    then show ?thesis by simp
  next
    assume "isSpace (last k)"
    with assms(1) have "isSpace (last ?l)"
      by (simp add: toLowerCase_def last_map isSpace_lowerChar)
    with ne have "last (splitWs ?l) = []" using splitWs_trailing by blast
    then show ?thesis using splitWs_nonempty [of ?l] last_in_set by metis
  qed
qed

lemma keepStudy_blank: "[] \<in> set ws \<Longrightarrow> \<not> keepStudy ws study"
  by (auto simp: keepStudy_def list_ex_iff intro!: bexI [of _ "[]"] includesStr_Nil)

lemma set_foldl_setAdd: "set (foldl setAdd acc xs) = set acc \<union> set xs"
  by (induction xs arbitrary: acc) (auto simp: setAdd_def)

lemma distinct_foldl_setAdd: "distinct acc \<Longrightarrow> distinct (foldl setAdd acc xs)"
  by (induction xs arbitrary: acc) (auto simp: setAdd_def)

lemma set_newSet: "set (newSet xs) = set xs"
  by (simp add: newSet_def set_foldl_setAdd)

lemma size_newSet: "length (newSet xs) = card (set xs)"
  using distinct_foldl_setAdd [of "[]" xs] set_newSet [of xs]
  by (metis distinct.simps(1) distinct_card newSet_def)

lemma studyCountries_set: "set (studyCountries study) = countrySet study"
  by (simp add: studyCountries_def countrySet_def set_newSet)

lemma studyCountries_size: "length (studyCountries study) = card (countrySet study)"
  by (simp add: studyCountries_def countrySet_def size_newSet)

lemma isInternational_iff:
  "isInternational args study \<longleftrightarrow>
     2 \<le> card (countrySet study) \<and>
     (\<forall>n. minCountries args = Some n \<longrightarrow> n \<le> int (card (countrySet study))) \<and>
     (\<forall>c. excludeCountry args = Some c \<longrightarrow> c \<noteq> [] \<longrightarrow> c \<notin> countrySet study)"
  unfolding isInternational_def Let_def studyCountries_set studyCountries_size
  by (cases "minCountries args"; cases "excludeCountry args") auto

lemma noArgs_simps:
  "query noArgs = None" "condition noArgs = None" "intervention noArgs = None"
  "location noArgs = None" "phase noArgs = None" "status noArgs = None"
  "sexArg noArgs = None" "age noArgs = None" "ageGroup noArgs = None"
  "pageSize noArgs = None" "nctIdArg noArgs = None" "similarityType noArgs = None"
  "minAge noArgs = None" "maxAge noArgs = None" "healthyVolunteersArg noArgs = None"
  "exclusionKeywords noArgs = None" "inclusionKeywords noArgs = None"
  "excludeCountry noArgs = None" "includeCountry noArgs = None" "minCountries noArgs = None"
  by (simp_all add: noArgs_def)

lemma countrySet_studyIn: "countrySet (studyIn ident cs) = set cs"
  by (simp add: countrySet_def studyLocations_def locationsOf_def studyIn_def bareSection_def
      orList_def siteIn_def image_image)

lemma eligibilityParams_exclusion:
  "eligibilityParams (args\<lparr>exclusionKeywords := kw\<rparr>) = eligibilityParams args"
  by (simp add: eligibilityParams_def)

lemma orNum_Some_0: "orNum (Some n) 0 = n"
  by (simp add: orNum_def)

lemma length_exclusionFilter: "length (exclusionFilter kw l) \<le> length l"
  by (cases kw) (simp_all add: exclusionFilter_def)

lemma sample_exclusion:
  "exclusionFilter (Some ''Pregnant smoker'')
     [studyWithCriteria ''NCT00000001'' ''Adults only'',
      studyWithCriteria ''NCT00000002'' ''Not PREGNANT'',
      bareStudy ''NCT00000003''] =
   [studyWithCriteria ''NCT00000001'' ''Adults only'', bareStudy ''NCT00000003'']"
  by code_simp

lemma nctIdOk_valid: "specValidId ident \<Longrightarrow> nctIdOk (Some ident)"
  by (simp add: nctIdOk_spec)

lemma setIf_falsy: "\<not> truthyStr v \<Longrightarrow> setIf (k, v) ps = ps"
  by (cases v) (auto simp: setIf_def truthyStr_def)

lemma similarParams_values:
  "(key, PStr v) \<in> set (similarParams args referenceStudy) \<Longrightarrow> v \<noteq> []"
  by (auto simp: similarParams_def Let_def setIf_def split: if_splits option.splits)

lemma similar_run:
  assumes "specValidId ident" and "nctIdArg args = Some ident"
    and "upstream (referenceParams ident) = Inr referenceResponse"
    and "studies referenceResponse = Some (referenceStudy # others)"
  shows "handleGetSimilarStudies upstream args =
      ([referenceParams ident, similarParams args referenceStudy],
       case upstream (similarParams args referenceStudy) of
         Inl f \<Rightarrow> onFailure f
       | Inr response \<Rightarrow>
           Returned
             \<lparr>content = Json (similarPayload args ident referenceStudy response),
              isError = False\<rparr>)"
  using assms(2,3,4) nctIdOk_valid [OF assms(1)]
  by (simp add: handleGetSimilarStudies_def orList_def Let_def)

lemma el_criteriaPreview_result:
  "el_criteriaPreview (crit_eligibility (criteriaResult study)) = criteriaPreview study"
  by (simp add: criteriaResult_def StudySummary.extend_def CriteriaResult.fields_def
      EligibilityBlock.extend_def CriteriaBlock.fields_def)

lemma criteriaPreview_value:
  "criteriaPreview study = plusStr (map_option (take 200) (criteriaText study)) ''...''"
  by (cases "criteriaText study") (simp_all add: criteriaPreview_def orStr_def plusStr_def)

section \<open>Identifier validator\<close>

text \<open>
  Claim C8. The pattern of the two identifier-taking handlers accepts a string exactly when
  it is \<^verbatim>\<open>NCT\<close> followed by eight digits, eleven characters in all. When the
  \<^verbatim>\<open>nctId\<close> argument is missing or is not such a string, \<^verbatim>\<open>handleGetStudyDetails\<close> and
  \<^verbatim>\<open>handleGetSimilarStudies\<close> throw the invalid-parameters error and have sent no query.
\<close>

theorem identifier_validator:
  "(nctPattern s \<longleftrightarrow> specValidId s) \<and>
   ((\<forall>ident. nctIdArg args = Some ident \<longrightarrow> \<not> specValidId ident) \<longrightarrow>
      handleGetStudyDetails upstream args =
        ([], ThrewMcp InvalidParams ''Valid NCT ID is required (format: NCT########)'') \<and>
      handleGetSimilarStudies upstream args =
        ([], ThrewMcp InvalidParams ''Valid NCT ID is required (format: NCT########)''))"
proof (intro conjI impI)
  show "nctPattern s \<longleftrightarrow> specValidId s" by (rule nctPattern_spec)
next
  assume bad: "\<forall>ident. nctIdArg args = Some ident \<longrightarrow> \<not> specValidId ident"
  then have no: "\<And>ident. nctIdArg args = Some ident \<Longrightarrow> \<not> nctIdOk (Some ident)"
    by (simp add: nctIdOk_spec)
  show "handleGetStudyDetails upstream args =
        ([], ThrewMcp InvalidParams ''Valid NCT ID is required (format: NCT########)'')"
    using no by (cases "nctIdArg args") (simp_all add: handleGetStudyDetails_def invalidNctId_def)
  show "handleGetSimilarStudies upstream args =
        ([], ThrewMcp InvalidParams ''Valid NCT ID is required (format: NCT########)'')"
    using no by (cases "nctIdArg args") (simp_all add: handleGetSimilarStudies_def invalidNctId_def)
qed

theorem identifier_validator_witness:
  "nctPattern ''NCT00000419'' \<and> \<not> nctPattern ''NCT0000041'' \<and>
   \<not> specValidId ''NCT0000041X'' \<and>
   handleGetStudyDetails (answering [] 0) (noArgs\<lparr>nctIdArg := Some ''NCT0000041X''\<rparr>) =
     ([], ThrewMcp InvalidParams ''Valid NCT ID is required (format: NCT########)'') \<and>
   handleGetSimilarStudies (answering [] 0) (noArgs\<lparr>nctIdArg := Some ''NCT0000041X''\<rparr>) =
     ([], ThrewMcp InvalidParams ''Valid NCT ID is required (format: NCT########)'')"
  using identifier_validator [of "''NCT00000419''" "noArgs\<lparr>nctIdArg := Some ''NCT0000041X''\<rparr>" "answering [] 0"]
    identifier_validator [of "''NCT0000041''" "noArgs\<lparr>nctIdArg := Some ''NCT0000041X''\<rparr>" "answering [] 0"]
  by (simp add: specValidId_def isDigit_def)

section \<open>Page size\<close>

text \<open>
  Claim C1. The claim says that a page size outside the range of the tool is rejected or
  clamped before any query is sent. The handlers compute \<^verbatim>\<open>args?.pageSize || 10\<close> and
  nothing else: the query of \<^verbatim>\<open>search_studies\<close> (declared range 1 to 100) carries the page
  sizes 500 and -5 as given, and the query of \<^verbatim>\<open>get_recruiting_studies\<close> (declared range
  1 to 50) carries 500, whatever the registry answers.
\<close>

theorem pageSize_forwarded_unclamped:
  "fst (handleSearchStudies upstream (noArgs\<lparr>pageSize := Some 500\<rparr>)) =
     [[(''format'', PStr ''json''), (''pageSize'', PNum 500)]] \<and>
   fst (handleSearchStudies upstream (noArgs\<lparr>pageSize := Some (- 5)\<rparr>)) =
     [[(''format'', PStr ''json''), (''pageSize'', PNum (- 5))]] \<and>
   fst (handleGetRecruitingStudies upstream (noArgs\<lparr>pageSize := Some 500\<rparr>)) =
     [[(''format'', PStr ''json''), (''pageSize'', PNum 500),
       (''filter.overallStatus'', PStr ''RECRUITING'')]]"
  by (simp add: handleSearchStudies_def handleGetRecruitingStudies_def searchStudiesParams_def
      recruitingParams_def Let_def setIf_def orNum_def noArgs_simps)

section \<open>Projector defaults\<close>

text \<open>
  The preview of the eligibility-criteria tool, evaluated. On a study without criteria text
  the suffix is appended to the missing value, so the preview is \<^verbatim>\<open>undefined...\<close> and the
  default \<^verbatim>\<open>Not available\<close> is never reached; on a study with the text \<^verbatim>\<open>Adults only\<close>
  the preview is the text followed by the suffix, not the text alone.
\<close>

theorem criteriaPreview_counterexample:
  "criteriaText (bareStudy ''NCT00000001'') = None \<and>
   el_criteriaPreview (crit_eligibility (criteriaResult (bareStudy ''NCT00000001''))) =
     ''undefined...'' \<and>
   el_criteriaPreview (crit_eligibility (criteriaResult (bareStudy ''NCT00000001''))) \<noteq>
     ''Not available'' \<and>
   criteriaText (studyWithCriteria ''NCT00000002'' ''Adults only'') = Some ''Adults only'' \<and>
   el_criteriaPreview
     (crit_eligibility (criteriaResult (studyWithCriteria ''NCT00000002'' ''Adults only''))) =
     ''Adults only...'' \<and>
   el_criteriaPreview
     (crit_eligibility (criteriaResult (studyWithCriteria ''NCT00000002'' ''Adults only''))) \<noteq>
     take 200 ''Adults only''"
  by (simp add: el_criteriaPreview_result criteriaPreview_value criteriaText_def eligField_def
      bareStudy_def bareSection_def studyWithCriteria_def plusStr_def)

text \<open>
  Claim C2, amended. For every study, an accessor of the summary, of the eligibility block
  and of the recruiting locations yields its default when its upstream field is absent:
  phase \<^verbatim>\<open>['Not specified']\<close>, study type \<^verbatim>\<open>Unknown\<close>, sponsor \<^verbatim>\<open>Not specified\<close>, no
  conditions, start date \<^verbatim>\<open>Not specified\<close>, sex \<^verbatim>\<open>Unknown\<close>, minimum and maximum age
  \<^verbatim>\<open>Not specified\<close>, healthy volunteers false, no locations. The accessors are total
  functions of the study: none of them raises. When the criteria text is present, the preview
  is its first 200 characters followed by \<^verbatim>\<open>...\<close>.
\<close>

theorem projector_defaults:
  "(studyPhases study = None \<longrightarrow> sum_phase (formatStudySummary study) = [''Not specified'']) \<and>
   (studyTypeOf study = None \<longrightarrow> sum_studyType (formatStudySummary study) = ''Unknown'') \<and>
   (sponsorName study = None \<longrightarrow> sum_sponsor (formatStudySummary study) = ''Not specified'') \<and>
   (studyConditions study = None \<longrightarrow> sum_conditions (formatStudySummary study) = []) \<and>
   (startDateOf study = None \<longrightarrow> sum_startDate (formatStudySummary study) = ''Not specified'') \<and>
   (eligField sex study = None \<longrightarrow> el_sex (eligibilityBlock study) = ''Unknown'') \<and>
   (eligField minimumAge study = None \<longrightarrow>
      el_minimumAge (eligibilityBlock study) = ''Not specified'') \<and>
   (eligField maximumAge study = None \<longrightarrow>
      el_maximumAge (eligibilityBlock study) = ''Not specified'') \<and>
   (eligField healthyVolunteers study = None \<longrightarrow>
      el_healthyVolunteers (eligibilityBlock study) = False) \<and>
   (locationsOf study = None \<longrightarrow> rec_locations (recruitingResult study) = []) \<and>
   (\<forall>t. criteriaText study = Some t \<longrightarrow>
      el_criteriaPreview (crit_eligibility (criteriaResult study)) = take 200 t @ ''...'')"
  by (simp add: formatStudySummary_def eligibilityBlock_def recruitingResult_def
      el_criteriaPreview_result criteriaPreview_value plusStr_def orStr_def orList_def
      orBool_def StudySummary.extend_def RecruitingResult.fields_def Let_def)

theorem projector_defaults_witness:
  "formatStudySummary (bareStudy ''NCT00000001'') =
     \<lparr>sum_nctId = ''NCT00000001'', sum_title = ''Trial'', sum_status = ''RECRUITING'',
      sum_phase = [''Not specified''], sum_studyType = ''Unknown'',
      sum_sponsor = ''Not specified'', sum_conditions = [],
      sum_startDate = ''Not specified''\<rparr> \<and>
   eligibilityBlock (bareStudy ''NCT00000001'') =
     \<lparr>el_sex = ''Unknown'', el_minimumAge = ''Not specified'',
      el_maximumAge = ''Not specified'', el_healthyVolunteers = False\<rparr> \<and>
   rec_locations (recruitingResult (bareStudy ''NCT00000001'')) = [] \<and>
   el_criteriaPreview
     (crit_eligibility (criteriaResult (studyWithCriteria ''NCT00000002'' ''Adults only''))) =
     ''Adults only...''"
proof -
  let ?b = "bareStudy ''NCT00000001''"
  let ?c = "studyWithCriteria ''NCT00000002'' ''Adults only''"
  have absent: "studyPhases ?b = None" "studyTypeOf ?b = None" "sponsorName ?b = None"
    "studyConditions ?b = None" "startDateOf ?b = None" "eligField sex ?b = None"
    "eligField minimumAge ?b = None" "eligField maximumAge ?b = None"
    "eligField healthyVolunteers ?b = None" "locationsOf ?b = None"
    by (simp_all add: studyPhases_def studyTypeOf_def sponsorName_def studyConditions_def
        startDateOf_def eligField_def locationsOf_def bareStudy_def bareSection_def)
  have present: "criteriaText ?c = Some ''Adults only''"
    by (simp add: criteriaText_def eligField_def studyWithCriteria_def)
  have ids: "sum_nctId (formatStudySummary ?b) = ''NCT00000001''"
    "sum_title (formatStudySummary ?b) = ''Trial''"
    "sum_status (formatStudySummary ?b) = ''RECRUITING''"
    by (simp_all add: formatStudySummary_def Let_def bareStudy_def bareSection_def)
  from projector_defaults [of ?b] absent
  have d: "sum_phase (formatStudySummary ?b) = [''Not specified'']"
    "sum_studyType (formatStudySummary ?b) = ''Unknown''"
    "sum_sponsor (formatStudySummary ?b) = ''Not specified''"
    "sum_conditions (formatStudySummary ?b) = []"
    "sum_startDate (formatStudySummary ?b) = ''Not specified''"
    "el_sex (eligibilityBlock ?b) = ''Unknown''"
    "el_minimumAge (eligibilityBlock ?b) = ''Not specified''"
    "el_maximumAge (eligibilityBlock ?b) = ''Not specified''"
    "el_healthyVolunteers (eligibilityBlock ?b) = False"
    "rec_locations (recruitingResult ?b) = []"
    by blast+
  from projector_defaults [of ?c] present
  have p: "el_criteriaPreview (crit_eligibility (criteriaResult ?c)) = take 200 ''Adults only'' @ ''...''"
    by blast
  have s: "formatStudySummary ?b =
     \<lparr>sum_nctId = ''NCT00000001'', sum_title = ''Trial'', sum_status = ''RECRUITING'',
      sum_phase = [''Not specified''], sum_studyType = ''Unknown'',
      sum_sponsor = ''Not specified'', sum_conditions = [],
      sum_startDate = ''Not specified''\<rparr>"
    using ids d(1-5) by (cases "formatStudySummary ?b") simp
  have e: "eligibilityBlock ?b =
     \<lparr>el_sex = ''Unknown'', el_minimumAge = ''Not specified'',
      el_maximumAge = ''Not specified'', el_healthyVolunteers = False\<rparr>"
    using d(6-9) by (cases "eligibilityBlock ?b") simp
  from s e d(10) p show ?thesis by simp
qed

section \<open>International studies\<close>

text \<open>
  Claim C3. A fetched study passes the filter of the international-studies tool exactly when
  its set of distinct location countries has at least two elements, and has at least
  \<^verbatim>\<open>minCountries\<close> elements when that argument is given, and does not contain
  \<^verbatim>\<open>excludeCountry\<close> when that argument is given. An excluded country is given when the
  handler's test \<^verbatim>\<open>args?.excludeCountry\<close> sees it, that is, when it is a non-empty string.
  The output lists the projections of the studies that pass, in the order fetched. A study
  with one country never passes, and a study with three countries does not pass when
  \<^verbatim>\<open>minCountries\<close> is 4.
\<close>

theorem international_filter:
  "(isInternational args study \<longleftrightarrow>
      2 \<le> card (countrySet study) \<and>
      (\<forall>n. minCountries args = Some n \<longrightarrow> n \<le> int (card (countrySet study))) \<and>
      (\<forall>c. excludeCountry args = Some c \<longrightarrow> c \<noteq> [] \<longrightarrow> c \<notin> countrySet study)) \<and>
   (\<forall>response. upstream (internationalParams args) = Inr response \<longrightarrow>
      (\<exists>payload.
         snd (handleSearchInternationalStudies upstream args) =
           Returned \<lparr>content = Json payload, isError = False\<rparr> \<and>
         out_studies payload =
           map internationalResult
             (filter (isInternational args) (orList (studies response) [])))) \<and>
   (card (countrySet study) = 1 \<longrightarrow> \<not> isInternational args study) \<and>
   (card (countrySet study) = 3 \<and> minCountries args = Some 4 \<longrightarrow>
      \<not> isInternational args study)"
proof (intro conjI allI impI)
  show "isInternational args study \<longleftrightarrow>
      2 \<le> card (countrySet study) \<and>
      (\<forall>n. minCountries args = Some n \<longrightarrow> n \<le> int (card (countrySet study))) \<and>
      (\<forall>c. excludeCountry args = Some c \<longrightarrow> c \<noteq> [] \<longrightarrow> c \<notin> countrySet study)"
    by (rule isInternational_iff)
next
  fix response
  assume "upstream (internationalParams args) = Inr response"
  then show "\<exists>payload.
         snd (handleSearchInternationalStudies upstream args) =
           Returned \<lparr>content = Json payload, isError = False\<rparr> \<and>
         out_studies payload =
           map internationalResult
             (filter (isInternational args) (orList (studies response) []))"
    by (simp add: handleSearchInternationalStudies_def Let_def)
next
  assume "card (countrySet study) = 1"
  then show "\<not> isInternational args study" by (simp add: isInternational_iff)
next
  assume "card (countrySet study) = 3 \<and> minCountries args = Some 4"
  then show "\<not> isInternational args study" by (simp add: isInternational_iff)
qed

theorem international_filter_witness:
  "isInternational (noArgs\<lparr>minCountries := Some 3, excludeCountry := Some ''Germany''\<rparr>)
     (studyIn ''NCT00000001'' [''France'', ''Spain'', ''France'', ''Italy'']) \<and>
   \<not> isInternational (noArgs\<lparr>minCountries := Some 4\<rparr>)
     (studyIn ''NCT00000001'' [''France'', ''Spain'', ''France'', ''Italy'']) \<and>
   \<not> isInternational noArgs (studyIn ''NCT00000002'' [''France'', ''France''])"
proof -
  have c3: "card {''France'', ''Spain'', ''France'', ''Italy''} = 3"
    by (simp add: card_insert_if)
  show ?thesis
    using international_filter
        [of "noArgs\<lparr>minCountries := Some 3, excludeCountry := Some ''Germany''\<rparr>"
            "studyIn ''NCT00000001'' [''France'', ''Spain'', ''France'', ''Italy'']"
            "answering [] 0", THEN conjunct1]
      international_filter
        [of "noArgs\<lparr>minCountries := Some 4\<rparr>"
            "studyIn ''NCT00000001'' [''France'', ''Spain'', ''France'', ''Italy'']"
            "answering [] 0", THEN conjunct2, THEN conjunct2, THEN conjunct2]
      international_filter
        [of noArgs "studyIn ''NCT00000002'' [''France'', ''France'']" "answering [] 0",
          THEN conjunct2, THEN conjunct2, THEN conjunct1]
    by (simp add: countrySet_studyIn c3 noArgs_simps)
qed

section \<open>Eligibility criteria\<close>

text \<open>
  Claim C4. When the registry answers the query of the eligibility-criteria tool with a
  total count \<open>n\<close>, the tool reports \<open>n\<close>, whatever the exclusion keywords are: they do
  not enter the query, and they only select which of the fetched studies are listed and
  counted in \<^verbatim>\<open>resultsShown\<close>.
\<close>

theorem exclusion_keeps_totalCount:
  assumes "upstream (eligibilityParams args) = Inr response"
    and "totalCount response = Some n"
  shows "\<exists>payload.
     handleSearchByEligibilityCriteria upstream (args\<lparr>exclusionKeywords := kw\<rparr>) =
       ([eligibilityParams args], Returned \<lparr>content = Json payload, isError = False\<rparr>) \<and>
     out_totalCount payload = n \<and>
     out_studies payload =
       map criteriaResult (exclusionFilter kw (orList (studies response) [])) \<and>
     out_resultsShown payload = length (out_studies payload) \<and>
     out_resultsShown payload \<le> length (orList (studies response) [])"
  using assms
  by (simp add: handleSearchByEligibilityCriteria_def Let_def eligibilityParams_exclusion
      orNum_Some_0 length_exclusionFilter)

theorem exclusion_keeps_totalCount_witness:
  "fst (handleSearchByEligibilityCriteria
          (answering
             [studyWithCriteria ''NCT00000001'' ''Adults only'',
              studyWithCriteria ''NCT00000002'' ''Not PREGNANT'',
              bareStudy ''NCT00000003''] 450)
          (noArgs\<lparr>exclusionKeywords := Some ''Pregnant smoker''\<rparr>)) =
     [eligibilityParams noArgs] \<and>
   map_option out_totalCount
     (payloadOf
        (handleSearchByEligibilityCriteria
           (answering
              [studyWithCriteria ''NCT00000001'' ''Adults only'',
               studyWithCriteria ''NCT00000002'' ''Not PREGNANT'',
               bareStudy ''NCT00000003''] 450)
           (noArgs\<lparr>exclusionKeywords := Some ''Pregnant smoker''\<rparr>))) = Some 450 \<and>
   map_option out_resultsShown
     (payloadOf
        (handleSearchByEligibilityCriteria
           (answering
              [studyWithCriteria ''NCT00000001'' ''Adults only'',
               studyWithCriteria ''NCT00000002'' ''Not PREGNANT'',
               bareStudy ''NCT00000003''] 450)
           (noArgs\<lparr>exclusionKeywords := Some ''Pregnant smoker''\<rparr>))) = Some 2"
proof -
  let ?found = "[studyWithCriteria ''NCT00000001'' ''Adults only'',
           studyWithCriteria ''NCT00000002'' ''Not PREGNANT'',
           bareStudy ''NCT00000003'']"
  have up: "answering ?found 450 (eligibilityParams noArgs) =
      Inr \<lparr>studies = Some ?found, totalCount = Some 450\<rparr>"
    by (simp add: answering_def)
  from exclusion_keeps_totalCount
    [where upstream = "answering ?found 450" and args = noArgs and n = 450
       and kw = "Some ''Pregnant smoker''", OF up]
  obtain payload where
    "handleSearchByEligibilityCriteria (answering ?found 450)
       (noArgs\<lparr>exclusionKeywords := Some ''Pregnant smoker''\<rparr>) =
       ([eligibilityParams noArgs], Returned \<lparr>content = Json payload, isError = False\<rparr>)"
    "out_totalCount payload = 450"
    "out_studies payload = map criteriaResult (exclusionFilter (Some ''Pregnant smoker'') ?found)"
    "out_resultsShown payload = length (out_studies payload)"
    by (auto simp: orList_def)
  then show ?thesis
    by (simp add: payloadOf_def sample_exclusion)
qed

text \<open>
  Claim C5. The exclusion filter is idempotent and keeps the order: filtering a filtered
  list again with the same keywords changes nothing, and the filtered list is a subsequence
  of the list it was computed from.
\<close>

theorem exclusion_filter_idempotent:
  "exclusionFilter keywords (exclusionFilter keywords studyList) =
     exclusionFilter keywords studyList \<and>
   subseq (exclusionFilter keywords studyList) studyList"
  by (cases "keywords") (simp_all add: exclusionFilter_def)

theorem exclusion_filter_idempotent_witness:
  "exclusionFilter (Some ''Pregnant smoker'')
     [studyWithCriteria ''NCT00000001'' ''Adults only'', bareStudy ''NCT00000003''] =
   [studyWithCriteria ''NCT00000001'' ''Adults only'', bareStudy ''NCT00000003''] \<and>
   subseq [studyWithCriteria ''NCT00000001'' ''Adults only'', bareStudy ''NCT00000003'']
     [studyWithCriteria ''NCT00000001'' ''Adults only'',
      studyWithCriteria ''NCT00000002'' ''Not PREGNANT'',
      bareStudy ''NCT00000003'']"
  using exclusion_filter_idempotent
    [of "Some ''Pregnant smoker''"
        "[studyWithCriteria ''NCT00000001'' ''Adults only'',
          studyWithCriteria ''NCT00000002'' ''Not PREGNANT'',
          bareStudy ''NCT00000003'']"]
  by (simp only: sample_exclusion)

text \<open>
  Claim C9. When the exclusion keywords are a non-empty string that consists of whitespace
  or begins or ends with whitespace (the no-break space included), splitting yields an
  empty word. The empty word occurs in
  every criteria text, so the filter drops every study: the list shown is empty, whatever the
  studies contain.
\<close>

theorem blank_exclusion_token_drops_all:
  assumes "exclusionKeywords args = Some k" and "k \<noteq> []"
    and "list_all isSpace k \<or> isSpace (hd k) \<or> isSpace (last k)"
  shows "[] \<in> set (splitWs (toLowerCase k)) \<and>
    exclusionFilter (exclusionKeywords args) studyList = [] \<and>
    (\<forall>response. upstream (eligibilityParams args) = Inr response \<longrightarrow>
       snd (handleSearchByEligibilityCriteria upstream args) =
         Returned
           \<lparr>content = Json
              \<lparr>out_totalCount = orNum (totalCount response) 0, out_resultsShown = 0,
               out_studies = []\<rparr>,
            isError = False\<rparr>)"
proof -
  from assms(2) have "list_all isSpace k \<Longrightarrow> isSpace (hd k)"
    by (cases k) simp_all
  with assms(3) have "isSpace (hd k) \<or> isSpace (last k)" by blast
  with assms(2) have tok: "[] \<in> set (splitWs (toLowerCase k))" by (rule blank_token)
  have drop: "\<And>l. exclusionFilter (exclusionKeywords args) l = []"
    using assms(1,2) tok by (simp add: exclusionFilter_def keepStudy_blank)
  show ?thesis
    using tok drop by (auto simp: handleSearchByEligibilityCriteria_def Let_def)
qed

theorem blank_exclusion_token_drops_all_witness:
  "[] \<in> set (splitWs (toLowerCase ''Pregnant '')) \<and>
   exclusionFilter (Some ''Pregnant '')
     [studyWithCriteria ''NCT00000001'' ''Adults only'', bareStudy ''NCT00000003''] = [] \<and>
   payloadOf
     (handleSearchByEligibilityCriteria
        (answering [studyWithCriteria ''NCT00000001'' ''Adults only'', bareStudy ''NCT00000003''] 450)
        (noArgs\<lparr>exclusionKeywords := Some ''Pregnant ''\<rparr>)) =
     Some \<lparr>out_totalCount = 450, out_resultsShown = 0, out_studies = []\<rparr> \<and>
   exclusionFilter (Some (CHR 0xA0 # ''smoker''))
     [studyWithCriteria ''NCT00000001'' ''Adults only'', bareStudy ''NCT00000003''] = []"
proof -
  let ?found = "[studyWithCriteria ''NCT00000001'' ''Adults only'', bareStudy ''NCT00000003'']"
  let ?args = "noArgs\<lparr>exclusionKeywords := Some ''Pregnant ''\<rparr>"
  let ?nbsp = "noArgs\<lparr>exclusionKeywords := Some (CHR 0xA0 # ''smoker'')\<rparr>"
  have h1: "exclusionKeywords ?args = Some ''Pregnant ''" by simp
  have h2: "''Pregnant '' \<noteq> []" by simp
  have h3: "list_all isSpace ''Pregnant '' \<or> isSpace (hd ''Pregnant '') \<or> isSpace (last ''Pregnant '')"
    by (simp add: isSpace_def)
  note t = blank_exclusion_token_drops_all
    [where args = ?args and k = "''Pregnant ''" and studyList = ?found
       and upstream = "answering ?found 450", OF h1 h2 h3]
  have n1: "exclusionKeywords ?nbsp = Some (CHR 0xA0 # ''smoker'')" by simp
  have n2: "CHR 0xA0 # ''smoker'' \<noteq> []" by simp
  have n3: "list_all isSpace (CHR 0xA0 # ''smoker'') \<or> isSpace (hd (CHR 0xA0 # ''smoker'')) \<or>
      isSpace (last (CHR 0xA0 # ''smoker''))"
    by (simp add: isSpace_def)
  note u = blank_exclusion_token_drops_all
    [where args = ?nbsp and k = "CHR 0xA0 # ''smoker''" and studyList = ?found
       and upstream = "answering ?found 450", OF n1 n2 n3]
  from t have a: "[] \<in> set (splitWs (toLowerCase ''Pregnant ''))" by blast
  from t have b: "exclusionFilter (Some ''Pregnant '') ?found = []" by simp
  from t have "snd (handleSearchByEligibilityCriteria (answering ?found 450) ?args) =
         Returned
           \<lparr>content = Json
              \<lparr>out_totalCount = orNum (totalCount \<lparr>studies = Some ?found, totalCount = Some 450\<rparr>) 0,
               out_resultsShown = 0, out_studies = []\<rparr>,
            isError = False\<rparr>"
    by (simp add: answering_def)
  then have c: "payloadOf (handleSearchByEligibilityCriteria (answering ?found 450) ?args) =
     Some \<lparr>out_totalCount = 450, out_resultsShown = 0, out_studies = []\<rparr>"
    by (simp add: payloadOf_def orNum_def)
  from u have d: "exclusionFilter (Some (CHR 0xA0 # ''smoker'')) ?found = []" by simp
  from a b c d show ?thesis by blast
qed

section \<open>Similar studies\<close>

text \<open>
  Claim C6. For a well-formed identifier whose reference lookup is answered with no study,
  the similar-studies tool returns a result with \<^verbatim>\<open>isError\<close> set and the message
  \<^verbatim>\<open>Reference study not found\<close>, after the one lookup query. The result is none of the
  outcomes of an upstream failure.
\<close>

theorem similar_reference_not_found:
  assumes "specValidId ident" and "nctIdArg args = Some ident"
    and "upstream (referenceParams ident) = Inr referenceResponse"
    and "studies referenceResponse = None \<or> studies referenceResponse = Some []"
  shows "handleGetSimilarStudies upstream args =
      ([referenceParams ident],
       Returned \<lparr>content = Text (''Reference study not found: '' @ ident), isError = True\<rparr>) \<and>
    (\<forall>f. snd (handleGetSimilarStudies upstream args) \<noteq> onFailure f)"
proof -
  from assms(4) have none: "orList (studies referenceResponse) [] = []"
    by (auto simp: orList_def)
  have run: "handleGetSimilarStudies upstream args =
      ([referenceParams ident],
       Returned \<lparr>content = Text (''Reference study not found: '' @ ident), isError = True\<rparr>)"
    using assms(2,3) none nctIdOk_valid [OF assms(1)]
    by (simp add: handleGetSimilarStudies_def)
  have "snd (handleGetSimilarStudies upstream args) \<noteq> onFailure f" for f
    unfolding run by (cases f) (simp_all add: onFailure_def)
  with run show ?thesis by blast
qed

theorem similar_reference_not_found_witness:
  "handleGetSimilarStudies (answering [] 0) (noArgs\<lparr>nctIdArg := Some ''NCT00000419''\<rparr>) =
     ([[(''format'', PStr ''json''), (''query.term'', PStr ''NCT00000419''), (''pageSize'', PNum 1)]],
      Returned
        \<lparr>content = Text ''Reference study not found: NCT00000419'', isError = True\<rparr>)"
  using similar_reference_not_found
    [where ident = "''NCT00000419''" and args = "noArgs\<lparr>nctIdArg := Some ''NCT00000419''\<rparr>"
       and upstream = "answering [] 0"
       and referenceResponse = "\<lparr>studies = Some [], totalCount = Some 0\<rparr>"]
  by (simp add: specValidId_def isDigit_def answering_def referenceParams_def)

text \<open>
  Claim C7. The secondary query of the similar-studies tool never holds an empty string.
  When the field selected by the similarity type is absent on the reference study (no sponsor
  name, no first condition, no first phase), the secondary query is the base query: the
  parameter is left out. The handler then sends the lookup and the secondary query, and
  returns the result of the secondary query when the registry answers it.
\<close>

theorem similar_absent_field_omitted:
  "(\<forall>key v. (key, PStr v) \<in> set (similarParams args referenceStudy) \<longrightarrow> v \<noteq> []) \<and>
   (similarityType args = Some ''SPONSOR'' \<and> \<not> truthyStr (sponsorName referenceStudy) \<longrightarrow>
      similarParams args referenceStudy = baseParams args) \<and>
   (orStr (similarityType args) ''CONDITION'' = ''CONDITION'' \<and>
      \<not> truthyStr (firstOf (studyConditions referenceStudy)) \<longrightarrow>
      similarParams args referenceStudy = baseParams args) \<and>
   (similarityType args = Some ''PHASE'' \<and> \<not> truthyStr (firstOf (studyPhases referenceStudy)) \<longrightarrow>
      similarParams args referenceStudy = baseParams args) \<and>
   (specValidId ident \<and> nctIdArg args = Some ident \<and>
    upstream (referenceParams ident) = Inr referenceResponse \<and>
    studies referenceResponse = Some (referenceStudy # others) \<longrightarrow>
      fst (handleGetSimilarStudies upstream args) =
        [referenceParams ident, similarParams args referenceStudy] \<and>
      (\<forall>response. upstream (similarParams args referenceStudy) = Inr response \<longrightarrow>
         snd (handleGetSimilarStudies upstream args) =
           Returned
             \<lparr>content = Json (similarPayload args ident referenceStudy response),
              isError = False\<rparr>))"
proof (intro conjI allI impI)
  fix key v
  assume "(key, PStr v) \<in> set (similarParams args referenceStudy)"
  then show "v \<noteq> []" by (rule similarParams_values)
next
  assume "similarityType args = Some ''SPONSOR'' \<and> \<not> truthyStr (sponsorName referenceStudy)"
  then show "similarParams args referenceStudy = baseParams args"
    by (simp add: similarParams_def baseParams_def orStr_def setIf_falsy)
next
  assume "orStr (similarityType args) ''CONDITION'' = ''CONDITION'' \<and>
      \<not> truthyStr (firstOf (studyConditions referenceStudy))"
  then show "similarParams args referenceStudy = baseParams args"
    by (simp add: similarParams_def baseParams_def setIf_falsy)
next
  assume "similarityType args = Some ''PHASE'' \<and> \<not> truthyStr (firstOf (studyPhases referenceStudy))"
  then show "similarParams args referenceStudy = baseParams args"
    by (simp add: similarParams_def baseParams_def orStr_def setIf_falsy)
next
  assume a: "specValidId ident \<and> nctIdArg args = Some ident \<and>
    upstream (referenceParams ident) = Inr referenceResponse \<and>
    studies referenceResponse = Some (referenceStudy # others)"
  then have run: "handleGetSimilarStudies upstream args =
      ([referenceParams ident, similarParams args referenceStudy],
       case upstream (similarParams args referenceStudy) of
         Inl f \<Rightarrow> onFailure f
       | Inr response \<Rightarrow>
           Returned
             \<lparr>content = Json (similarPayload args ident referenceStudy response),
              isError = False\<rparr>)"
    using similar_run by blast
  then show "fst (handleGetSimilarStudies upstream args) =
        [referenceParams ident, similarParams args referenceStudy]"
    by simp
  fix response
  assume "upstream (similarParams args referenceStudy) = Inr response"
  with run show "snd (handleGetSimilarStudies upstream args) =
           Returned
             \<lparr>content = Json (similarPayload args ident referenceStudy response),
              isError = False\<rparr>"
    by simp
qed

theorem similar_absent_field_omitted_witness:
  "fst (handleGetSimilarStudies
          (registry [bareStudy ''NCT00000001'', bareStudy ''NCT00000002''])
          (noArgs\<lparr>nctIdArg := Some ''NCT00000001'', similarityType := Some ''SPONSOR''\<rparr>)) =
     [[(''format'', PStr ''json''), (''query.term'', PStr ''NCT00000001''), (''pageSize'', PNum 1)],
      [(''format'', PStr ''json''), (''pageSize'', PNum 10)]]"
proof -
  let ?ref = "bareStudy ''NCT00000001''"
  let ?up = "registry [?ref, bareStudy ''NCT00000002'']"
  let ?args = "noArgs\<lparr>nctIdArg := Some ''NCT00000001'', similarityType := Some ''SPONSOR''\<rparr>"
  note t = similar_absent_field_omitted
    [where args = ?args and referenceStudy = ?ref and ident = "''NCT00000001''"
       and upstream = ?up
       and referenceResponse = "\<lparr>studies = Some [?ref], totalCount = Some 1\<rparr>"
       and others = "[]"]
  have h1: "similarityType ?args = Some ''SPONSOR'' \<and> \<not> truthyStr (sponsorName ?ref)"
    by (simp add: truthyStr_def sponsorName_def bareStudy_def bareSection_def)
  have h2: "specValidId ''NCT00000001'' \<and> nctIdArg ?args = Some ''NCT00000001'' \<and>
    ?up (referenceParams ''NCT00000001'') = Inr \<lparr>studies = Some [?ref], totalCount = Some 1\<rparr> \<and>
    studies \<lparr>studies = Some [?ref], totalCount = Some 1\<rparr> = Some [?ref]"
    by (simp add: specValidId_def isDigit_def registry_def referenceParams_def bareStudy_def
        bareSection_def)
  from t h1 have q: "similarParams ?args ?ref = baseParams ?args" by blast
  from t h2 have "fst (handleGetSimilarStudies ?up ?args) =
      [referenceParams ''NCT00000001'', similarParams ?args ?ref]" by blast
  then show ?thesis
    by (simp add: q referenceParams_def baseParams_def orNum_def noArgs_simps)
qed

text \<open>
  Claim C10. For the similarity type \<^verbatim>\<open>INTERVENTION\<close> no case of the switch matches: the
  secondary query holds the format and the page size only. When the registry answers it, the
  tool returns a result that is not an error and lists the summaries of the studies of the
  answer other than the reference study.
\<close>

theorem similar_intervention_unconstrained:
  assumes "similarityType args = Some ''INTERVENTION''"
  shows "similarParams args referenceStudy = baseParams args \<and>
    (specValidId ident \<and> nctIdArg args = Some ident \<and>
     upstream (referenceParams ident) = Inr referenceResponse \<and>
     studies referenceResponse = Some (referenceStudy # others) \<and>
     upstream (baseParams args) = Inr response \<longrightarrow>
       handleGetSimilarStudies upstream args =
         ([referenceParams ident, baseParams args],
          Returned
            \<lparr>content = Json (similarPayload args ident referenceStudy response),
             isError = False\<rparr>) \<and>
       similarStudies (similarPayload args ident referenceStudy response) =
         map formatStudySummary
           (filter (\<lambda>study. nctId (identificationModule (protocolSection study)) \<noteq> ident)
              (orList (studies response) [])))"
proof -
  have q: "similarParams args referenceStudy = baseParams args"
    using assms by (simp add: similarParams_def baseParams_def orStr_def)
  have "handleGetSimilarStudies upstream args =
         ([referenceParams ident, baseParams args],
          Returned
            \<lparr>content = Json (similarPayload args ident referenceStudy response),
             isError = False\<rparr>)"
    if "specValidId ident" "nctIdArg args = Some ident"
      "upstream (referenceParams ident) = Inr referenceResponse"
      "studies referenceResponse = Some (referenceStudy # others)"
      "upstream (baseParams args) = Inr response"
    using similar_run [where upstream = upstream, OF that(1-4)] that(5) by (simp add: q)
  then show ?thesis
    by (auto simp: q similarPayload_def Let_def)
qed

theorem similar_intervention_unconstrained_witness:
  "fst (handleGetSimilarStudies
          (registry [bareStudy ''NCT00000001'', bareStudy ''NCT00000002''])
          (noArgs\<lparr>nctIdArg := Some ''NCT00000001'', similarityType := Some ''INTERVENTION''\<rparr>)) =
     [[(''format'', PStr ''json''), (''query.term'', PStr ''NCT00000001''), (''pageSize'', PNum 1)],
      [(''format'', PStr ''json''), (''pageSize'', PNum 10)]] \<and>
   map_option similarStudies
     (payloadOf
        (handleGetSimilarStudies
           (registry [bareStudy ''NCT00000001'', bareStudy ''NCT00000002''])
           (noArgs\<lparr>nctIdArg := Some ''NCT00000001'', similarityType := Some ''INTERVENTION''\<rparr>))) =
     Some [formatStudySummary (bareStudy ''NCT00000002'')]"
proof -
  let ?ref = "bareStudy ''NCT00000001''"
  let ?db = "[?ref, bareStudy ''NCT00000002'']"
  let ?up = "registry ?db"
  let ?args = "noArgs\<lparr>nctIdArg := Some ''NCT00000001'', similarityType := Some ''INTERVENTION''\<rparr>"
  let ?r1 = "\<lparr>studies = Some [?ref], totalCount = Some 1\<rparr>"
  let ?r2 = "\<lparr>studies = Some ?db, totalCount = Some 2\<rparr>"
  have h0: "similarityType ?args = Some ''INTERVENTION''" by simp
  have h: "specValidId ''NCT00000001'' \<and> nctIdArg ?args = Some ''NCT00000001'' \<and>
     ?up (referenceParams ''NCT00000001'') = Inr ?r1 \<and>
     studies ?r1 = Some (?ref # []) \<and>
     ?up (baseParams ?args) = Inr ?r2"
    by (simp add: specValidId_def isDigit_def registry_def referenceParams_def bareStudy_def
        bareSection_def baseParams_def)
  note t = similar_intervention_unconstrained
    [where args = ?args and referenceStudy = ?ref and ident = "''NCT00000001''"
       and upstream = ?up and referenceResponse = ?r1 and others = "[]" and response = ?r2,
     OF h0, THEN conjunct2, rule_format, OF h]
  have keep: "filter (\<lambda>study. nctId (identificationModule (protocolSection study)) \<noteq> ''NCT00000001'') ?db =
      [bareStudy ''NCT00000002'']"
    by (simp add: bareStudy_def bareSection_def)
  from t have run: "handleGetSimilarStudies ?up ?args =
      ([referenceParams ''NCT00000001'', baseParams ?args],
       Returned \<lparr>content = Json (similarPayload ?args ''NCT00000001'' ?ref ?r2), isError = False\<rparr>)"
    by blast
  from t keep have sim: "similarStudies (similarPayload ?args ''NCT00000001'' ?ref ?r2) =
      [formatStudySummary (bareStudy ''NCT00000002'')]"
    by (simp add: orList_def)
  show ?thesis
    unfolding run
    by (simp add: sim payloadOf_def referenceParams_def baseParams_def orNum_def noArgs_simps)
qed

end
